theory Spec2Isabelle
  imports Main
begin

section \<open>The session handlers of \<open>pkg/agent/ssh/server.go\<close>\<close>

text \<open>
  The handlers of the agent's SSH server are effectful Go: they read the session, ask the
  host (filesystem, environment, process table) and write to the session and the log.
  Here every handler is a function from the server value, the outcomes of the host calls
  it makes and the session's request data to the list of the effects it performs, in
  program order. A deferred call is the last effect of the path that registered it; a
  goroutine is one effect \<open>Go\<close> carrying the effects of its body.
\<close>

subsection \<open>Data\<close>

text \<open>\<open>type Server struct\<close>, lines 20-23.\<close>

record Server =
  WorkspaceDir :: string
  DefaultWorkspaceDir :: string

text \<open>
  Values of Go's \<open>error\<close> interface, as far as the code tells them apart:
  \<open>os.IsNotExist\<close> (lines 85 and 144), \<open>io.EOF\<close> (line 211), the
  \<open>*exec.ExitError\<close> of a process that ended with a nonzero status, and any other
  error with its text. A call that returns \<open>error\<close> is an \<open>error option\<close>,
  \<open>None\<close> for \<open>nil\<close>.
\<close>

datatype error = ErrNotExist | EOF | ExitError int | Error string

fun os_IsNotExist :: "error option \<Rightarrow> bool" where
  "os_IsNotExist (Some ErrNotExist) = True"
| "os_IsNotExist _ = False"

text \<open>The streams a command's output is wired to (lines 148-149).\<close>

datatype stream = Session | SessionStderr

text \<open>The fields of \<open>exec.Cmd\<close> that \<open>exec.Command\<close> and the handlers set.\<close>

record Cmd =
  Path :: string
  Args :: "string list"
  Env :: "string list"
  Dir :: string
  Stdout :: "stream option"
  Stderr :: "stream option"

text \<open>
  What a handler reads from \<open>ssh.Session\<close>: \<open>Subsystem()\<close>, \<open>RawCommand()\<close>,
  \<open>Command()\<close> (the raw command line split into words), the terminal type and the
  flag of \<open>Pty()\<close>, and \<open>ssh.AgentRequested(session)\<close>.
\<close>

record session =
  Subsystem :: string
  RawCommand :: string
  Command :: "string list"
  Term :: string
  isPty :: bool
  AgentRequested :: bool

text \<open>
  The outcome of every host call a handler makes while it serves one session:
  \<open>exec.LookPath(name)\<close> (the executable found for a bare name in the directories of
  \<open>PATH\<close>, \<open>None\<close> when there is none), \<open>os.Environ()\<close>,
  \<open>common.GetShell()\<close>, \<open>os.Stat(path)\<close> (its error only),
  \<open>ssh.NewAgentListener()\<close> (the error, or the listener's address),
  \<open>Start(cmd)\<close> of the pty, \<open>cmd.StdinPipe()\<close>, \<open>io.Copy(stdinPipe, session)\<close>,
  \<open>cmd.Start()\<close>, \<open>cmd.Wait()\<close>, \<open>session.Exit(0)\<close>, \<open>sftp.NewServer\<close> and
  \<open>server.Serve()\<close>.
\<close>

record host =
  exec_LookPath :: "string \<Rightarrow> string option"
  os_Environ :: "string list"
  common_GetShell :: string
  os_Stat :: "string \<Rightarrow> error option"
  ssh_NewAgentListener :: "error + string"
  pty_Start :: "error option"
  cmd_StdinPipe :: "error option"
  io_Copy_stdin :: "error option"
  cmd_Start :: "error option"
  cmd_Wait :: "error option"
  session_Exit0 :: "error option"
  sftp_NewServer :: "error option"
  sftp_Serve :: "error option"

text \<open>
  \<open>exec.Command(name, arg...)\<close> sets \<open>Args\<close> to \<open>name # arg\<close> and
  \<open>Path\<close> to \<open>name\<close>; when \<open>name\<close> contains no path separator it asks
  \<open>LookPath\<close> and, if that finds an executable, sets \<open>Path\<close> to the path found.
  When the lookup fails the error is kept in the command and returned by its start, which
  is the outcome \<open>cmd_Start\<close> or \<open>pty_Start\<close> of the host.
\<close>

definition exec_Command :: "host \<Rightarrow> string \<Rightarrow> string list \<Rightarrow> Cmd" where
  "exec_Command h name arg =
     (let cmd = \<lparr>Path = name, Args = name # arg, Env = [], Dir = [],
                 Stdout = None, Stderr = None\<rparr>
      in if CHR ''/'' \<notin> set name then
           (case exec_LookPath h name of
              Some lp \<Rightarrow> cmd\<lparr>Path := lp\<rparr>
            | None \<Rightarrow> cmd)
         else cmd)"

text \<open>The logging calls, with their format string and arguments.\<close>

datatype log_fn = Errorf | Warnf | Println

datatype arg = S string | E error

text \<open>The goroutines the handlers start.\<close>

datatype goroutine =
    ForwardAgentConnections
  | SetPtySizeLoop
  | CopySessionToPty
  | CopySessionToStdin
  | SignalLoop

text \<open>
  The effects. \<open>PtyStart cmd\<close> and \<open>CmdStart cmd\<close> are a process spawned
  (\<open>Start(cmd)\<close> of line 104 and \<open>cmd.Start()\<close> of line 164, when they succeed);
  \<open>SessionExit n\<close> is \<open>session.Exit(n)\<close>, the exit status reported to the caller.
  \<open>Go g body\<close> starts goroutine \<open>g\<close>; \<open>body\<close> holds the effects of its body
  that are followed here (none for the loops that only move bytes, window sizes or
  signals).
\<close>

datatype event =
    Log log_fn string "arg list"
  | AgentListen string
  | AgentListenerClose
  | Go goroutine "event list"
  | PtyStart Cmd
  | PtyClose
  | CopyPtyToSession
  | StdinPipeClose
  | CmdStart Cmd
  | SessionSignals bool
  | CloseSigs
  | CmdWait
  | SessionExit int
  | SftpServe
  | SftpClose

subsection \<open>The interactive path: \<open>handlePty\<close>, lines 79-120\<close>

text \<open>Lines 100-119: the environment after the agent block, the pty and the copies.\<close>

definition handlePty_start :: "host \<Rightarrow> session \<Rightarrow> string \<Rightarrow> Cmd \<Rightarrow> event list" where
  "handlePty_start h sess shell cmd0 =
     (let cmd = cmd0\<lparr>Env := Env cmd0 @ [''TERM='' @ Term sess]\<rparr>;
          cmd = cmd\<lparr>Env := Env cmd @ os_Environ h\<rparr>;
          cmd = cmd\<lparr>Env := Env cmd @ [''SHELL='' @ shell]\<rparr>
      in case pty_Start h of
           Some err \<Rightarrow> [Log Errorf ''Unable to start PTY: %v'' [E err]]
         | None \<Rightarrow>
             [PtyStart cmd, Go SetPtySizeLoop [], Go CopySessionToPty [],
              CopyPtyToSession, PtyClose])"

definition handlePty :: "Server \<Rightarrow> host \<Rightarrow> session \<Rightarrow> event list" where
  "handlePty s h sess =
     (let shell = common_GetShell h;
          cmd = exec_Command h shell [];
          cmd = cmd\<lparr>Dir := WorkspaceDir s\<rparr>;
          cmd = (if os_IsNotExist (os_Stat h (WorkspaceDir s))
                 then cmd\<lparr>Dir := DefaultWorkspaceDir s\<rparr> else cmd)
      in if AgentRequested sess then
           (case ssh_NewAgentListener h of
              Inl err \<Rightarrow> [Log Errorf ''Failed to start agent listener: %v'' [E err]]
            | Inr addr \<Rightarrow>
                [AgentListen addr, Go ForwardAgentConnections []]
                @ handlePty_start h sess shell
                    (cmd\<lparr>Env := Env cmd @ [''SSH_AUTH_SOCK='' @ addr]\<rparr>)
                @ [AgentListenerClose])
         else handlePty_start h sess shell cmd)"

subsection \<open>The non-interactive path: \<open>handleNonPty\<close>, lines 122-196\<close>

text \<open>The goroutine of lines 155-162, after its \<open>io.Copy\<close> has returned.\<close>

definition stdinCopy :: "host \<Rightarrow> event list" where
  "stdinCopy h =
     (case io_Copy_stdin h of
        Some err \<Rightarrow> [Log Errorf ''Unable to read from session: %v'' [E err]]
      | None \<Rightarrow> [StdinPipeClose])"

text \<open>
  Lines 143-195: working directory, wiring, start, signals, wait and exit status. The
  deferred function of lines 171-174 runs when the handler returns after a start that
  succeeded.
\<close>

definition handleNonPty_run :: "Server \<Rightarrow> host \<Rightarrow> session \<Rightarrow> Cmd \<Rightarrow> event list" where
  "handleNonPty_run s h sess cmd0 =
     (let cmd = cmd0\<lparr>Dir := WorkspaceDir s\<rparr>;
          cmd = (if os_IsNotExist (os_Stat h (WorkspaceDir s))
                 then cmd\<lparr>Dir := DefaultWorkspaceDir s\<rparr> else cmd);
          cmd = cmd\<lparr>Stdout := Some Session\<rparr>;
          cmd = cmd\<lparr>Stderr := Some SessionStderr\<rparr>
      in case cmd_StdinPipe h of
           Some err \<Rightarrow> [Log Errorf ''Unable to setup stdin for session: %v'' [E err]]
         | None \<Rightarrow>
             Go CopySessionToStdin (stdinCopy h) #
             (case cmd_Start h of
                Some err \<Rightarrow> [Log Errorf ''Unable to start command: %v'' [E err]]
              | None \<Rightarrow>
                  [CmdStart cmd, SessionSignals True, Go SignalLoop [], CmdWait]
                  @ (case cmd_Wait h of
                       Some err \<Rightarrow>
                         [Log Println [] [S (RawCommand sess), S '' '', E err],
                          SessionExit 127]
                     | None \<Rightarrow>
                         SessionExit 0 #
                         (case session_Exit0 h of
                            Some err \<Rightarrow> [Log Warnf ''Unable to exit session: %v'' [E err]]
                          | None \<Rightarrow> []))
                  @ [SessionSignals False, CloseSigs]))"

definition handleNonPty :: "Server \<Rightarrow> host \<Rightarrow> session \<Rightarrow> event list" where
  "handleNonPty s h sess =
     (let args = (if length (Command sess) > 0 then [''-c'', RawCommand sess] else []);
          cmd = exec_Command h ''sh'' args;
          cmd = cmd\<lparr>Env := Env cmd @ os_Environ h\<rparr>
      in if AgentRequested sess then
           (case ssh_NewAgentListener h of
              Inl err \<Rightarrow> [Log Errorf ''Failed to start agent listener: %v'' [E err]]
            | Inr addr \<Rightarrow>
                [AgentListen addr, Go ForwardAgentConnections []]
                @ handleNonPty_run s h sess
                    (cmd\<lparr>Env := Env cmd @ [''SSH_AUTH_SOCK='' @ addr]\<rparr>)
                @ [AgentListenerClose])
         else handleNonPty_run s h sess cmd)"

subsection \<open>The file-transfer subsystem: \<open>sftpHandler\<close>, lines 198-216\<close>

definition sftpHandler :: "host \<Rightarrow> event list" where
  "sftpHandler h =
     (case sftp_NewServer h of
        Some err \<Rightarrow> [Log Errorf (''sftp server init error: %s'' @ [CHR 0x0A]) [E err]]
      | None \<Rightarrow>
          SftpServe #
          (case sftp_Serve h of
             None \<Rightarrow> []
           | Some err \<Rightarrow>
               if err = EOF then [SftpClose]
               else [Log Errorf (''sftp server completed with error: %s'' @ [CHR 0x0A])
                       [E err]]))"

subsection \<open>The dispatcher: the \<open>Handler\<close> closure of \<open>Start\<close>, lines 31-49\<close>

text \<open>
  The result says which branch served the session and holds that branch's effects.
\<close>

datatype handled =
    BySftp "event list"
  | Unsupported "event list"
  | ByPty "event list"
  | ByNonPty "event list"

fun events :: "handled \<Rightarrow> event list" where
  "events (BySftp t) = t"
| "events (Unsupported t) = t"
| "events (ByPty t) = t"
| "events (ByNonPty t) = t"

definition Handler :: "Server \<Rightarrow> host \<Rightarrow> session \<Rightarrow> handled" where
  "Handler s h sess =
     (let ss = Subsystem sess
      in if ss = [] then
           (if RawCommand sess = [] \<and> isPty sess
            then ByPty (handlePty s h sess)
            else ByNonPty (handleNonPty s h sess))
         else if ss = ''sftp'' then BySftp (sftpHandler h)
         else Unsupported
                [Log Errorf (''Subsystem %s not supported'' @ [CHR 0x0A]) [S ss],
                 SessionExit 1])"

subsection \<open>Observations on a handler's effects\<close>

text \<open>The processes spawned, and the exit statuses reported to the caller, in order.\<close>

fun spawn_of :: "event \<Rightarrow> Cmd option" where
  "spawn_of (PtyStart c) = Some c"
| "spawn_of (CmdStart c) = Some c"
| "spawn_of _ = None"

definition spawned :: "event list \<Rightarrow> Cmd list" where
  "spawned t = List.map_filter spawn_of t"

fun exit_of :: "event \<Rightarrow> int option" where
  "exit_of (SessionExit n) = Some n"
| "exit_of _ = None"

definition exit_statuses :: "event list \<Rightarrow> int list" where
  "exit_statuses t = List.map_filter exit_of t"

text \<open>
  An environment is a list of \<open>NAME=value\<close> entries. \<open>assigned k kv\<close> is the value
  entry \<open>kv\<close> gives to name \<open>k\<close>, if it is an assignment to \<open>k\<close>;
  \<open>last_assignment k env\<close> is what a consumer sees for \<open>k\<close> when the last
  assignment of a name wins.
\<close>

definition assigned :: "string \<Rightarrow> string \<Rightarrow> string option" where
  "assigned k kv =
     (if CHR ''='' \<in> set kv \<and> takeWhile (\<lambda>c. c \<noteq> CHR ''='') kv = k
      then Some (tl (dropWhile (\<lambda>c. c \<noteq> CHR ''='') kv)) else None)"

fun last_assignment :: "string \<Rightarrow> string list \<Rightarrow> string option" where
  "last_assignment k [] = None"
| "last_assignment k (kv # env) =
     (case last_assignment k env of
        Some v \<Rightarrow> Some v
      | None \<Rightarrow> assigned k kv)"

subsection \<open>Example sessions\<close>

definition srv :: Server where
  "srv = \<lparr>WorkspaceDir = ''/workspaces/app'', DefaultWorkspaceDir = ''/home/daytona''\<rparr>"

text \<open>A host where the workspace directory exists and every call succeeds.\<close>

definition host_ok :: host where
  "host_ok =
     \<lparr>exec_LookPath = (\<lambda>name. if name = ''sh'' then Some ''/usr/bin/sh'' else None),
      os_Environ = [''PATH=/usr/bin'', ''SHELL=/bin/sh'', ''SSH_AUTH_SOCK=/run/host.sock''],
      common_GetShell = ''/bin/bash'',
      os_Stat = (\<lambda>p. None),
      ssh_NewAgentListener = Inr ''/tmp/auth-agent/listener.sock'',
      pty_Start = None, cmd_StdinPipe = None, io_Copy_stdin = None,
      cmd_Start = None, cmd_Wait = None, session_Exit0 = None,
      sftp_NewServer = None, sftp_Serve = Some EOF\<rparr>"

text \<open>An interactive session and a one-shot command, with and without agent forwarding.\<close>

definition sess_shell :: session where
  "sess_shell =
     \<lparr>Subsystem = [], RawCommand = [], Command = [], Term = ''xterm'', isPty = True,
      AgentRequested = False\<rparr>"

definition sess_cmd :: session where
  "sess_cmd =
     \<lparr>Subsystem = [], RawCommand = ''ls -l'', Command = [''ls'', ''-l''], Term = [],
      isPty = False, AgentRequested = False\<rparr>"

definition sess_shell_agent :: session where
  "sess_shell_agent = sess_shell\<lparr>AgentRequested := True\<rparr>"

definition sess_cmd_agent :: session where
  "sess_cmd_agent = sess_cmd\<lparr>AgentRequested := True\<rparr>"

text \<open>A session that asks for a subsystem the server does not know.\<close>

definition sess_x11 :: session where
  "sess_x11 = sess_cmd\<lparr>Subsystem := ''x11''\<rparr>"

text \<open>
  Hosts where one thing goes wrong: the workspace directory is gone, no agent listener
  can be created, the command cannot be started, the command ends with status 2, reading
  the session fails.
\<close>

definition host_gone :: host where
  "host_gone =
     host_ok\<lparr>os_Stat := (\<lambda>p. if p = ''/workspaces/app'' then Some ErrNotExist else None)\<rparr>"

definition host_noagent :: host where
  "host_noagent =
     host_ok\<lparr>ssh_NewAgentListener := Inl (Error ''listen unix: permission denied'')\<rparr>"

definition host_nostart :: host where
  "host_nostart =
     host_ok\<lparr>cmd_Start := Some (Error ''fork/exec: resource temporarily unavailable'')\<rparr>"

definition host_exit2 :: host where
  "host_exit2 = host_ok\<lparr>cmd_Wait := Some (ExitError 2)\<rparr>"

definition host_copyerr :: host where
  "host_copyerr =
     host_ok\<lparr>io_Copy_stdin := Some (Error ''read: connection reset by peer'')\<rparr>"

text \<open>The commands these sessions are expected to spawn.\<close>

definition cmd_ls :: "string \<Rightarrow> Cmd" where
  "cmd_ls dir =
     \<lparr>Path = ''/usr/bin/sh'', Args = [''sh'', ''-c'', ''ls -l''],
      Env = [''PATH=/usr/bin'', ''SHELL=/bin/sh'', ''SSH_AUTH_SOCK=/run/host.sock''],
      Dir = dir, Stdout = Some Session, Stderr = Some SessionStderr\<rparr>"

definition cmd_ls_agent :: Cmd where
  "cmd_ls_agent =
     (cmd_ls ''/workspaces/app'')
       \<lparr>Env := [''PATH=/usr/bin'', ''SHELL=/bin/sh'', ''SSH_AUTH_SOCK=/run/host.sock'',
                ''SSH_AUTH_SOCK=/tmp/auth-agent/listener.sock'']\<rparr>"

definition cmd_bash :: "string list \<Rightarrow> Cmd" where
  "cmd_bash pre =
     \<lparr>Path = ''/bin/bash'', Args = [''/bin/bash''],
      Env = pre @ [''TERM=xterm'', ''PATH=/usr/bin'', ''SHELL=/bin/sh'',
                   ''SSH_AUTH_SOCK=/run/host.sock'', ''SHELL=/bin/bash''],
      Dir = ''/workspaces/app'', Stdout = None, Stderr = None\<rparr>"

section \<open>Properties\<close>

lemmas examples =
  srv_def host_ok_def sess_shell_def sess_cmd_def sess_shell_agent_def sess_cmd_agent_def
  sess_x11_def host_gone_def host_noagent_def host_nostart_def host_exit2_def
  host_copyerr_def

subsection \<open>Spawned processes and exit statuses of each handler\<close>

lemma spawned_Nil: "spawned [] = []"
  by (simp add: spawned_def)

lemma spawned_Cons:
  "spawned (e # t) = (case spawn_of e of None \<Rightarrow> spawned t | Some c \<Rightarrow> c # spawned t)"
  by (cases "spawn_of e") (simp_all add: spawned_def)

lemma spawned_append: "spawned (t @ u) = spawned t @ spawned u"
  by (simp add: spawned_def map_filter_def)

lemmas spawned_simps = spawned_Nil spawned_Cons spawned_append

lemma exit_statuses_Nil: "exit_statuses [] = []"
  by (simp add: exit_statuses_def)

lemma exit_statuses_Cons:
  "exit_statuses (e # t) =
     (case exit_of e of None \<Rightarrow> exit_statuses t | Some n \<Rightarrow> n # exit_statuses t)"
  by (cases "exit_of e") (simp_all add: exit_statuses_def)

lemma exit_statuses_append: "exit_statuses (t @ u) = exit_statuses t @ exit_statuses u"
  by (simp add: exit_statuses_def map_filter_def)

lemmas exit_statuses_simps = exit_statuses_Nil exit_statuses_Cons exit_statuses_append

lemma Path_exec_Command:
  "Path (exec_Command h name arg) =
     (if CHR ''/'' \<in> set name then name
      else (case exec_LookPath h name of Some lp \<Rightarrow> lp | None \<Rightarrow> name))"
  by (simp add: exec_Command_def split: option.splits)

lemma spawned_handlePty_start:
  "spawned (handlePty_start h sess shell cmd) =
     (case pty_Start h of
        Some err \<Rightarrow> []
      | None \<Rightarrow>
          [cmd\<lparr>Env := Env cmd @ (''TERM='' @ Term sess) # os_Environ h
                          @ [''SHELL='' @ shell]\<rparr>])"
  by (simp add: handlePty_start_def spawned_simps split: option.splits)

lemma spawned_handlePty:
  "spawned (handlePty s h sess) =
    (if AgentRequested sess then
       (case ssh_NewAgentListener h of
          Inl err \<Rightarrow> []
        | Inr addr \<Rightarrow>
            (case pty_Start h of
               Some err \<Rightarrow> []
             | None \<Rightarrow>
                 [\<lparr>Path = (if CHR ''/'' \<in> set (common_GetShell h) then common_GetShell h
                           else (case exec_LookPath h (common_GetShell h) of
                                   Some lp \<Rightarrow> lp
                                 | None \<Rightarrow> common_GetShell h)),
                   Args = [common_GetShell h],
                   Env = (''SSH_AUTH_SOCK='' @ addr) # (''TERM='' @ Term sess) # os_Environ h
                           @ [''SHELL='' @ common_GetShell h],
                   Dir = (if os_IsNotExist (os_Stat h (WorkspaceDir s))
                          then DefaultWorkspaceDir s else WorkspaceDir s),
                   Stdout = None, Stderr = None\<rparr>]))
     else
       (case pty_Start h of
          Some err \<Rightarrow> []
        | None \<Rightarrow>
            [\<lparr>Path = (if CHR ''/'' \<in> set (common_GetShell h) then common_GetShell h
                      else (case exec_LookPath h (common_GetShell h) of
                              Some lp \<Rightarrow> lp
                            | None \<Rightarrow> common_GetShell h)),
              Args = [common_GetShell h],
              Env = (''TERM='' @ Term sess) # os_Environ h @ [''SHELL='' @ common_GetShell h],
              Dir = (if os_IsNotExist (os_Stat h (WorkspaceDir s))
                     then DefaultWorkspaceDir s else WorkspaceDir s),
              Stdout = None, Stderr = None\<rparr>]))"
  by (simp add: handlePty_def Let_def spawned_simps spawned_handlePty_start exec_Command_def
      split: option.splits sum.splits)

lemma spawned_handleNonPty_run:
  "spawned (handleNonPty_run s h sess cmd) =
     (if cmd_StdinPipe h = None \<and> cmd_Start h = None
      then [cmd\<lparr>Dir := (if os_IsNotExist (os_Stat h (WorkspaceDir s))
                         then DefaultWorkspaceDir s else WorkspaceDir s),
                Stdout := Some Session, Stderr := Some SessionStderr\<rparr>]
      else [])"
  by (simp add: handleNonPty_run_def Let_def spawned_simps split: option.splits)

lemma exit_statuses_handleNonPty_run:
  "exit_statuses (handleNonPty_run s h sess cmd) =
     (if cmd_StdinPipe h = None \<and> cmd_Start h = None
      then [if cmd_Wait h = None then 0 else 127]
      else [])"
  by (simp add: handleNonPty_run_def Let_def exit_statuses_simps split: option.splits)

lemma spawned_handleNonPty:
  "spawned (handleNonPty s h sess) =
    (if (AgentRequested sess \<longrightarrow> isl (ssh_NewAgentListener h) = False)
        \<and> cmd_StdinPipe h = None \<and> cmd_Start h = None
     then [\<lparr>Path = (case exec_LookPath h ''sh'' of Some lp \<Rightarrow> lp | None \<Rightarrow> ''sh''),
            Args = ''sh'' # (if length (Command sess) > 0 then [''-c'', RawCommand sess] else []),
            Env = os_Environ h @
                  (if AgentRequested sess
                   then [''SSH_AUTH_SOCK='' @ projr (ssh_NewAgentListener h)] else []),
            Dir = (if os_IsNotExist (os_Stat h (WorkspaceDir s))
                   then DefaultWorkspaceDir s else WorkspaceDir s),
            Stdout = Some Session, Stderr = Some SessionStderr\<rparr>]
     else [])"
  by (auto simp: handleNonPty_def Let_def spawned_simps spawned_handleNonPty_run
      exec_Command_def split: option.splits sum.splits)

lemma exit_statuses_handleNonPty:
  "exit_statuses (handleNonPty s h sess) =
    (if (AgentRequested sess \<longrightarrow> isl (ssh_NewAgentListener h) = False)
        \<and> cmd_StdinPipe h = None \<and> cmd_Start h = None
     then [if cmd_Wait h = None then 0 else 127]
     else [])"
  by (simp add: handleNonPty_def Let_def exit_statuses_simps exit_statuses_handleNonPty_run
      split: option.splits sum.splits)

lemma spawned_sftpHandler: "spawned (sftpHandler h) = []"
  by (simp add: sftpHandler_def spawned_simps split: option.splits)

lemma Handler_unsupported:
  "Subsystem sess \<noteq> [] \<Longrightarrow> Subsystem sess \<noteq> ''sftp'' \<Longrightarrow>
   Handler s h sess =
     Unsupported
       [Log Errorf (''Subsystem %s not supported'' @ [CHR 0x0A]) [S (Subsystem sess)],
        SessionExit 1]"
  by (simp add: Handler_def)

subsection \<open>Exit status of a one-shot command\<close>

text \<open>
  C1. In \<open>handleNonPty\<close>, once the process has been started, the handler reports
  exactly one exit status to the caller: 0 when \<open>cmd.Wait()\<close> returns no error, and
  127 when it returns any error (a nonzero exit, or any other failure of the wait).
\<close>

theorem handleNonPty_exit_status:
  "spawned (handleNonPty s h sess) \<noteq> [] \<Longrightarrow>
   exit_statuses (handleNonPty s h sess) = [if cmd_Wait h = None then 0 else 127]"
  by (simp add: spawned_handleNonPty exit_statuses_handleNonPty split: if_splits)

theorem handleNonPty_exit_status_witness:
  "spawned (handleNonPty srv host_exit2 sess_cmd) \<noteq> [] \<and>
   exit_statuses (handleNonPty srv host_exit2 sess_cmd) = [127] \<and>
   spawned (handleNonPty srv host_ok sess_cmd) \<noteq> [] \<and>
   exit_statuses (handleNonPty srv host_ok sess_cmd) = [0]"
proof -
  have a: "spawned (handleNonPty srv host_exit2 sess_cmd) \<noteq> []"
    by (simp add: spawned_handleNonPty examples)
  have b: "spawned (handleNonPty srv host_ok sess_cmd) \<noteq> []"
    by (simp add: spawned_handleNonPty examples)
  show ?thesis
    using a b handleNonPty_exit_status [OF a] handleNonPty_exit_status [OF b]
    by (simp add: examples)
qed

subsection \<open>Unsupported subsystems\<close>

text \<open>
  C10. When the requested subsystem name is neither empty nor \<open>sftp\<close>, the dispatcher
  reports exit status 1 to the caller, and nothing else, and that report is the last
  thing it does before it returns.
\<close>

theorem Handler_unsupported_exit_1:
  "Subsystem sess \<noteq> [] \<Longrightarrow> Subsystem sess \<noteq> ''sftp'' \<Longrightarrow>
   exit_statuses (events (Handler s h sess)) = [1] \<and>
   last (events (Handler s h sess)) = SessionExit 1"
  by (simp add: Handler_unsupported exit_statuses_def)

theorem Handler_unsupported_exit_1_witness:
  "Subsystem sess_x11 \<noteq> [] \<and> Subsystem sess_x11 \<noteq> ''sftp'' \<and>
   exit_statuses (events (Handler srv host_ok sess_x11)) = [1] \<and>
   last (events (Handler srv host_ok sess_x11)) = SessionExit 1"
proof -
  have a: "Subsystem sess_x11 \<noteq> []" and b: "Subsystem sess_x11 \<noteq> ''sftp''"
    by (simp_all add: examples)
  show ?thesis
    using a b Handler_unsupported_exit_1 [OF a b, of srv host_ok] by simp
qed

subsection \<open>Reading an environment\<close>

lemma last_assignment_append:
  "last_assignment k (xs @ ys) =
     (case last_assignment k ys of Some v \<Rightarrow> Some v | None \<Rightarrow> last_assignment k xs)"
  by (induction xs) (auto split: option.splits)

lemma takeWhile_name:
  "CHR ''='' \<notin> set k \<Longrightarrow> takeWhile (\<lambda>c. c \<noteq> CHR ''='') (k @ CHR ''='' # v) = k"
  by (induction k) auto

lemma dropWhile_name:
  "CHR ''='' \<notin> set k \<Longrightarrow> dropWhile (\<lambda>c. c \<noteq> CHR ''='') (k @ CHR ''='' # v) = CHR ''='' # v"
  by (induction k) auto

lemma assigned_name:
  "CHR ''='' \<notin> set k \<Longrightarrow> assigned k' (k @ CHR ''='' # v) = (if k' = k then Some v else None)"
  by (auto simp: assigned_def takeWhile_name dropWhile_name)

lemmas assigned_SHELL = assigned_name [of "''SHELL''", simplified]

lemmas assigned_TERM = assigned_name [of "''TERM''", simplified]

lemmas assigned_SSH_AUTH_SOCK = assigned_name [of "''SSH_AUTH_SOCK''", simplified]

lemmas assigned_simps = assigned_SHELL assigned_TERM assigned_SSH_AUTH_SOCK

subsection \<open>What the dispatcher spawns\<close>

lemma spawned_events_Handler:
  "spawned (events (Handler s h sess)) =
     (if Subsystem sess = [] then
        (if RawCommand sess = [] \<and> isPty sess then spawned (handlePty s h sess)
         else spawned (handleNonPty s h sess))
      else [])"
  by (simp add: Handler_def Let_def spawned_simps spawned_sftpHandler)

lemma Dir_spawned_handlePty:
  "c \<in> set (spawned (handlePty s h sess)) \<Longrightarrow>
   Dir c = (if os_IsNotExist (os_Stat h (WorkspaceDir s)) then DefaultWorkspaceDir s
            else WorkspaceDir s)"
  by (auto simp: spawned_handlePty split: if_splits sum.splits option.splits)

lemma Dir_spawned_handleNonPty:
  "c \<in> set (spawned (handleNonPty s h sess)) \<Longrightarrow>
   Dir c = (if os_IsNotExist (os_Stat h (WorkspaceDir s)) then DefaultWorkspaceDir s
            else WorkspaceDir s)"
  by (auto simp: spawned_handleNonPty split: if_splits)

subsection \<open>Working directory\<close>

text \<open>
  C5. Every process a session spawns, through \<open>handlePty\<close> or
  \<open>handleNonPty\<close>, runs in the configured \<open>WorkspaceDir\<close>, unless \<open>os.Stat\<close>
  of that directory reports that it does not exist: then it runs in
  \<open>DefaultWorkspaceDir\<close>. The directory counts as absent exactly when
  \<open>os.IsNotExist\<close> holds of the error of \<open>os.Stat\<close>. Each handler spawns one
  process when its setup succeeds and none otherwise, and so does the dispatcher for the
  session it hands on. The check is made inside the handler, on the host as it is when
  that session is served: the handlers only read the \<open>Server\<close> value and hand
  nothing on to the next session, so the same request served again after the directory
  was removed runs in the fallback directory.
\<close>

theorem workdir_resolved_per_session:
  "map Dir (spawned (handlePty s h sess)) =
     (if (AgentRequested sess \<longrightarrow> \<not> isl (ssh_NewAgentListener h)) \<and> pty_Start h = None
      then [if os_IsNotExist (os_Stat h (WorkspaceDir s)) then DefaultWorkspaceDir s
            else WorkspaceDir s]
      else []) \<and>
   map Dir (spawned (handleNonPty s h sess)) =
     (if (AgentRequested sess \<longrightarrow> \<not> isl (ssh_NewAgentListener h)) \<and>
         cmd_StdinPipe h = None \<and> cmd_Start h = None
      then [if os_IsNotExist (os_Stat h (WorkspaceDir s)) then DefaultWorkspaceDir s
            else WorkspaceDir s]
      else []) \<and>
   (c \<in> set (spawned (events (Handler s h sess))) \<longrightarrow>
      Dir c = (if os_IsNotExist (os_Stat h (WorkspaceDir s)) then DefaultWorkspaceDir s
               else WorkspaceDir s))"
proof (intro conjI impI)
  show "map Dir (spawned (handlePty s h sess)) =
     (if (AgentRequested sess \<longrightarrow> \<not> isl (ssh_NewAgentListener h)) \<and> pty_Start h = None
      then [if os_IsNotExist (os_Stat h (WorkspaceDir s)) then DefaultWorkspaceDir s
            else WorkspaceDir s]
      else [])"
    by (simp add: spawned_handlePty split: sum.splits option.splits)
  show "map Dir (spawned (handleNonPty s h sess)) =
     (if (AgentRequested sess \<longrightarrow> \<not> isl (ssh_NewAgentListener h)) \<and>
         cmd_StdinPipe h = None \<and> cmd_Start h = None
      then [if os_IsNotExist (os_Stat h (WorkspaceDir s)) then DefaultWorkspaceDir s
            else WorkspaceDir s]
      else [])"
    by (simp add: spawned_handleNonPty)
next
  assume "c \<in> set (spawned (events (Handler s h sess)))"
  then have "c \<in> set (spawned (handlePty s h sess)) \<or>
      c \<in> set (spawned (handleNonPty s h sess))"
    by (simp add: spawned_events_Handler split: if_splits)
  then show "Dir c = (if os_IsNotExist (os_Stat h (WorkspaceDir s))
      then DefaultWorkspaceDir s else WorkspaceDir s)"
    using Dir_spawned_handlePty Dir_spawned_handleNonPty by blast
qed

theorem workdir_resolved_per_session_witness:
  "WorkspaceDir srv = ''/workspaces/app'' \<and> DefaultWorkspaceDir srv = ''/home/daytona'' \<and>
   \<not> os_IsNotExist (os_Stat host_ok (WorkspaceDir srv)) \<and>
   os_IsNotExist (os_Stat host_gone (WorkspaceDir srv)) \<and>
   map Dir (spawned (handlePty srv host_ok sess_shell)) = [''/workspaces/app''] \<and>
   map Dir (spawned (handlePty srv host_gone sess_shell)) = [''/home/daytona''] \<and>
   map Dir (spawned (handleNonPty srv host_ok sess_cmd)) = [''/workspaces/app''] \<and>
   map Dir (spawned (handleNonPty srv host_gone sess_cmd)) = [''/home/daytona''] \<and>
   cmd_ls ''/home/daytona'' \<in> set (spawned (events (Handler srv host_gone sess_cmd))) \<and>
   Dir (cmd_ls ''/home/daytona'') = ''/home/daytona''"
proof -
  have w: "WorkspaceDir srv = ''/workspaces/app''"
    and d: "DefaultWorkspaceDir srv = ''/home/daytona''"
    by (simp_all add: srv_def)
  have n0: "\<not> os_IsNotExist (os_Stat host_ok (WorkspaceDir srv))"
    and n1: "os_IsNotExist (os_Stat host_gone (WorkspaceDir srv))"
    by (simp_all add: examples)
  have p0: "((AgentRequested sess_shell \<longrightarrow> \<not> isl (ssh_NewAgentListener host_ok)) \<and>
      pty_Start host_ok = None) = True"
    and p1: "((AgentRequested sess_shell \<longrightarrow> \<not> isl (ssh_NewAgentListener host_gone)) \<and>
      pty_Start host_gone = None) = True"
    and q0: "((AgentRequested sess_cmd \<longrightarrow> \<not> isl (ssh_NewAgentListener host_ok)) \<and>
      cmd_StdinPipe host_ok = None \<and> cmd_Start host_ok = None) = True"
    and q1: "((AgentRequested sess_cmd \<longrightarrow> \<not> isl (ssh_NewAgentListener host_gone)) \<and>
      cmd_StdinPipe host_gone = None \<and> cmd_Start host_gone = None) = True"
    by (simp_all add: examples)
  have c: "cmd_ls ''/home/daytona'' \<in> set (spawned (events (Handler srv host_gone sess_cmd)))"
    by (simp add: spawned_events_Handler spawned_handleNonPty cmd_ls_def examples)
  note t0 = workdir_resolved_per_session [of srv host_ok sess_shell]
  note t1 = workdir_resolved_per_session [of srv host_gone sess_shell]
  note u0 = workdir_resolved_per_session [of srv host_ok sess_cmd]
  note u1 = workdir_resolved_per_session
    [of srv host_gone sess_cmd "cmd_ls ''/home/daytona''"]
  from t0 have "map Dir (spawned (handlePty srv host_ok sess_shell)) = [WorkspaceDir srv]"
    by (simp only: p0 n0 if_True if_False)
  then have a0: "map Dir (spawned (handlePty srv host_ok sess_shell)) = [''/workspaces/app'']"
    by (simp only: w)
  from t1
  have "map Dir (spawned (handlePty srv host_gone sess_shell)) = [DefaultWorkspaceDir srv]"
    by (simp only: p1 n1 if_True if_False)
  then have a1: "map Dir (spawned (handlePty srv host_gone sess_shell)) = [''/home/daytona'']"
    by (simp only: d)
  from u0 have "map Dir (spawned (handleNonPty srv host_ok sess_cmd)) = [WorkspaceDir srv]"
    by (simp only: q0 n0 if_True if_False)
  then have b0: "map Dir (spawned (handleNonPty srv host_ok sess_cmd)) = [''/workspaces/app'']"
    by (simp only: w)
  from u1
  have "map Dir (spawned (handleNonPty srv host_gone sess_cmd)) = [DefaultWorkspaceDir srv]"
    by (simp only: q1 n1 if_True if_False)
  then have b1: "map Dir (spawned (handleNonPty srv host_gone sess_cmd)) = [''/home/daytona'']"
    by (simp only: d)
  from u1 c have "Dir (cmd_ls ''/home/daytona'') = DefaultWorkspaceDir srv"
    by (simp only: n1 if_True simp_thms)
  then have e: "Dir (cmd_ls ''/home/daytona'') = ''/home/daytona''"
    by (simp only: d)
  from w d n0 n1 a0 a1 b0 b1 c e show ?thesis by blast
qed

subsection \<open>Environment of the interactive shell\<close>

text \<open>
  C6. In \<open>handlePty\<close> the environment of the spawned shell is, in this order,
  the \<open>TERM\<close> entry, the inherited environment of the host and the \<open>SHELL\<close> entry
  last; the only thing that can stand before \<open>TERM\<close> is the \<open>SSH_AUTH_SOCK\<close>
  entry of a granted agent forwarding (see C9). As \<open>SHELL\<close> is the last entry,
  a consumer for which the last assignment of a name wins sees the shell of
  \<open>common.GetShell()\<close>, whatever \<open>SHELL\<close> the inherited environment holds.
\<close>

theorem handlePty_env_order:
  "c \<in> set (spawned (handlePty s h sess)) \<Longrightarrow>
   Env c =
     (if AgentRequested sess
      then (case ssh_NewAgentListener h of Inr a \<Rightarrow> [''SSH_AUTH_SOCK='' @ a] | Inl e \<Rightarrow> [])
      else [])
     @ [''TERM='' @ Term sess] @ os_Environ h @ [''SHELL='' @ common_GetShell h] \<and>
   last_assignment ''SHELL'' (Env c) = Some (common_GetShell h)"
  by (auto simp: spawned_handlePty last_assignment_append assigned_simps
      split: if_splits sum.splits option.splits)

theorem handlePty_env_order_witness:
  "cmd_bash [] \<in> set (spawned (handlePty srv host_ok sess_shell)) \<and>
   Env (cmd_bash []) =
     [''TERM=xterm'', ''PATH=/usr/bin'', ''SHELL=/bin/sh'', ''SSH_AUTH_SOCK=/run/host.sock'',
      ''SHELL=/bin/bash''] \<and>
   last_assignment ''SHELL'' (os_Environ host_ok) = Some ''/bin/sh'' \<and>
   common_GetShell host_ok = ''/bin/bash'' \<and>
   last_assignment ''SHELL'' (Env (cmd_bash [])) = Some (common_GetShell host_ok)"
proof -
  have c: "cmd_bash [] \<in> set (spawned (handlePty srv host_ok sess_shell))"
    by (simp add: spawned_handlePty cmd_bash_def examples)
  have v: "Env (cmd_bash []) =
     [''TERM=xterm'', ''PATH=/usr/bin'', ''SHELL=/bin/sh'', ''SSH_AUTH_SOCK=/run/host.sock'',
      ''SHELL=/bin/bash'']"
    by (simp add: cmd_bash_def)
  have e: "last_assignment ''SHELL'' (os_Environ host_ok) = Some ''/bin/sh''"
    by (simp add: host_ok_def assigned_def)
  have g: "common_GetShell host_ok = ''/bin/bash''"
    by (simp add: host_ok_def)
  from handlePty_env_order [OF c]
  have r: "last_assignment ''SHELL'' (Env (cmd_bash [])) = Some (common_GetShell host_ok)"
    by (rule conjunct2)
  from c v e g r show ?thesis by blast
qed

text \<open>
  C9. In \<open>handlePty\<close> with agent forwarding requested and the listener created, the
  \<open>SSH_AUTH_SOCK\<close> entry with the listener's address is the first entry of the
  environment, before the inherited environment. So when the last assignment of a name
  wins, the spawned shell sees the \<open>SSH_AUTH_SOCK\<close> of the inherited environment if
  there is one, and the listener's address only if there is none.
\<close>

theorem handlePty_inherited_auth_sock_wins:
  "AgentRequested sess \<Longrightarrow> ssh_NewAgentListener h = Inr a \<Longrightarrow>
   c \<in> set (spawned (handlePty s h sess)) \<Longrightarrow>
   Env c = (''SSH_AUTH_SOCK='' @ a) # (''TERM='' @ Term sess) # os_Environ h
             @ [''SHELL='' @ common_GetShell h] \<and>
   last_assignment ''SSH_AUTH_SOCK'' (Env c) =
     (case last_assignment ''SSH_AUTH_SOCK'' (os_Environ h) of
        Some v \<Rightarrow> Some v
      | None \<Rightarrow> Some a)"
  by (auto simp: spawned_handlePty last_assignment_append assigned_simps
      split: if_splits sum.splits option.splits)

theorem handlePty_inherited_auth_sock_wins_witness:
  "AgentRequested sess_shell_agent \<and>
   ssh_NewAgentListener host_ok = Inr ''/tmp/auth-agent/listener.sock'' \<and>
   cmd_bash [''SSH_AUTH_SOCK=/tmp/auth-agent/listener.sock'']
     \<in> set (spawned (handlePty srv host_ok sess_shell_agent)) \<and>
   last_assignment ''SSH_AUTH_SOCK'' (os_Environ host_ok) = Some ''/run/host.sock'' \<and>
   last_assignment ''SSH_AUTH_SOCK''
     (Env (cmd_bash [''SSH_AUTH_SOCK=/tmp/auth-agent/listener.sock''])) = Some ''/run/host.sock''"
proof -
  have a: "AgentRequested sess_shell_agent"
    and l: "ssh_NewAgentListener host_ok = Inr ''/tmp/auth-agent/listener.sock''"
    by (simp_all add: examples)
  have c: "cmd_bash [''SSH_AUTH_SOCK=/tmp/auth-agent/listener.sock'']
             \<in> set (spawned (handlePty srv host_ok sess_shell_agent))"
    by (simp add: spawned_handlePty cmd_bash_def examples)
  have e: "last_assignment ''SSH_AUTH_SOCK'' (os_Environ host_ok) = Some ''/run/host.sock''"
    by (simp add: host_ok_def assigned_def)
  from handlePty_inherited_auth_sock_wins [OF a l c]
  have "last_assignment ''SSH_AUTH_SOCK''
          (Env (cmd_bash [''SSH_AUTH_SOCK=/tmp/auth-agent/listener.sock''])) =
        (case last_assignment ''SSH_AUTH_SOCK'' (os_Environ host_ok) of
           Some v \<Rightarrow> Some v
         | None \<Rightarrow> Some ''/tmp/auth-agent/listener.sock'')"
    by (rule conjunct2)
  then have r: "last_assignment ''SSH_AUTH_SOCK''
          (Env (cmd_bash [''SSH_AUTH_SOCK=/tmp/auth-agent/listener.sock''])) =
        Some ''/run/host.sock''"
    by (simp only: e option.case)
  from a l c e r show ?thesis by blast
qed

subsection \<open>Program and environment of a one-shot command\<close>

text \<open>
  C8. The program \<open>handleNonPty\<close> runs is named by the literal \<open>sh\<close>, with
  \<open>-c\<close> and the raw command line as arguments when a command was given: the argument
  vector starts with \<open>sh\<close> and the executable is what \<open>exec.Command\<close> resolves
  the bare name \<open>sh\<close> to, the file \<open>LookPath\<close> finds for it. Neither depends on
  \<open>common.GetShell()\<close>, which names the program \<open>handlePty\<close> runs. The
  environment of the \<open>sh\<close> process is the inherited environment, followed by the
  \<open>SSH_AUTH_SOCK\<close> entry when agent forwarding was set up, and nothing else: the
  values of \<open>TERM\<close> and \<open>SHELL\<close> it sees are the inherited ones.
\<close>

theorem handleNonPty_sh_and_env:
  "(c \<in> set (spawned (handleNonPty s h sess)) \<longrightarrow>
      Path c = (case exec_LookPath h ''sh'' of Some lp \<Rightarrow> lp | None \<Rightarrow> ''sh'') \<and>
      Args c = ''sh'' # (if Command sess = [] then [] else [''-c'', RawCommand sess]) \<and>
      Env c = os_Environ h @
        (if AgentRequested sess
         then (case ssh_NewAgentListener h of Inr a \<Rightarrow> [''SSH_AUTH_SOCK='' @ a] | Inl e \<Rightarrow> [])
         else []) \<and>
      last_assignment ''TERM'' (Env c) = last_assignment ''TERM'' (os_Environ h) \<and>
      last_assignment ''SHELL'' (Env c) = last_assignment ''SHELL'' (os_Environ h)) \<and>
   (c' \<in> set (spawned (handlePty s h sess')) \<longrightarrow>
      Path c' =
        (if CHR ''/'' \<in> set (common_GetShell h) then common_GetShell h
         else (case exec_LookPath h (common_GetShell h) of
                 Some lp \<Rightarrow> lp
               | None \<Rightarrow> common_GetShell h)) \<and>
      Args c' = [common_GetShell h])"
  by (auto simp: spawned_handlePty spawned_handleNonPty last_assignment_append assigned_simps
      split: if_splits sum.splits option.splits)

theorem handleNonPty_sh_and_env_witness:
  "cmd_ls_agent \<in> set (spawned (handleNonPty srv host_ok sess_cmd_agent)) \<and>
   exec_LookPath host_ok ''sh'' = Some ''/usr/bin/sh'' \<and>
   Path cmd_ls_agent = ''/usr/bin/sh'' \<and>
   Args cmd_ls_agent = [''sh'', ''-c'', ''ls -l''] \<and>
   Env cmd_ls_agent = os_Environ host_ok @ [''SSH_AUTH_SOCK=/tmp/auth-agent/listener.sock''] \<and>
   last_assignment ''TERM'' (Env cmd_ls_agent) = last_assignment ''TERM'' (os_Environ host_ok) \<and>
   last_assignment ''SHELL'' (Env cmd_ls_agent) = last_assignment ''SHELL'' (os_Environ host_ok) \<and>
   cmd_bash [] \<in> set (spawned (handlePty srv host_ok sess_shell)) \<and>
   common_GetShell host_ok = ''/bin/bash'' \<and>
   Path (cmd_bash []) = ''/bin/bash'' \<and> Args (cmd_bash []) = [''/bin/bash'']"
proof -
  have c: "cmd_ls_agent \<in> set (spawned (handleNonPty srv host_ok sess_cmd_agent))"
    by (simp add: spawned_handleNonPty cmd_ls_agent_def cmd_ls_def examples)
  have c': "cmd_bash [] \<in> set (spawned (handlePty srv host_ok sess_shell))"
    by (simp add: spawned_handlePty cmd_bash_def examples)
  have g: "common_GetShell host_ok = ''/bin/bash''"
    and l: "exec_LookPath host_ok ''sh'' = Some ''/usr/bin/sh''"
    by (simp_all add: host_ok_def)
  have v: "Path cmd_ls_agent = ''/usr/bin/sh''"
    and a: "Args cmd_ls_agent = [''sh'', ''-c'', ''ls -l'']"
    and e: "Env cmd_ls_agent =
      os_Environ host_ok @ [''SSH_AUTH_SOCK=/tmp/auth-agent/listener.sock'']"
    and v': "Path (cmd_bash []) = ''/bin/bash''"
    and a': "Args (cmd_bash []) = [''/bin/bash'']"
    by (simp_all add: cmd_ls_agent_def cmd_ls_def cmd_bash_def host_ok_def)
  from c c' g l v a e v' a'
    handleNonPty_sh_and_env
      [of cmd_ls_agent srv host_ok sess_cmd_agent "cmd_bash []" sess_shell]
  show ?thesis by blast
qed

subsection \<open>Dispatch\<close>

text \<open>
  C7. The dispatcher hands a session to \<open>handlePty\<close> exactly when the subsystem name
  is empty, a pty was requested and the raw command line is empty; every other session
  with an empty subsystem name goes to \<open>handleNonPty\<close>; and a subsystem name that
  is neither empty nor \<open>sftp\<close> ends the session at once: exit status 1 is reported
  and no process is spawned.
\<close>

theorem Handler_dispatch:
  "((\<exists>t. Handler s h sess = ByPty t) \<longleftrightarrow>
      Subsystem sess = [] \<and> isPty sess \<and> RawCommand sess = []) \<and>
   (Subsystem sess = [] \<and> isPty sess \<and> RawCommand sess = [] \<longrightarrow>
      Handler s h sess = ByPty (handlePty s h sess)) \<and>
   (Subsystem sess = [] \<and> \<not> (isPty sess \<and> RawCommand sess = []) \<longrightarrow>
      Handler s h sess = ByNonPty (handleNonPty s h sess)) \<and>
   (Subsystem sess \<noteq> [] \<and> Subsystem sess \<noteq> ''sftp'' \<longrightarrow>
      (\<exists>t. Handler s h sess = Unsupported t \<and> spawned t = [] \<and> exit_statuses t = [1]))"
  by (auto simp: Handler_def Let_def spawned_simps exit_statuses_simps)

theorem Handler_dispatch_witness:
  "Handler srv host_ok sess_shell = ByPty (handlePty srv host_ok sess_shell) \<and>
   Handler srv host_ok sess_cmd = ByNonPty (handleNonPty srv host_ok sess_cmd) \<and>
   Handler srv host_ok (sess_cmd\<lparr>isPty := True\<rparr>)
     = ByNonPty (handleNonPty srv host_ok (sess_cmd\<lparr>isPty := True\<rparr>)) \<and>
   (\<exists>t. Handler srv host_ok sess_x11 = Unsupported t \<and> spawned t = [] \<and>
        exit_statuses t = [1])"
  using Handler_dispatch [of srv host_ok sess_shell]
    Handler_dispatch [of srv host_ok sess_cmd]
    Handler_dispatch [of srv host_ok "sess_cmd\<lparr>isPty := True\<rparr>"]
    Handler_dispatch [of srv host_ok sess_x11]
  by (simp add: examples)

subsection \<open>Failure to create the agent listener\<close>

text \<open>
  C2, as stated: when agent forwarding is requested and \<open>ssh.NewAgentListener()\<close>
  fails, the session goes on and the process is still spawned. It does not hold: on a
  host where only the listener fails, neither handler spawns a process for a session that
  requests agent forwarding, while both do for the same session without the request.
\<close>

theorem agent_listener_failure_spawns_nothing:
  "AgentRequested sess_cmd_agent \<and> AgentRequested sess_shell_agent \<and>
   isl (ssh_NewAgentListener host_noagent) \<and>
   spawned (handleNonPty srv host_noagent sess_cmd_agent) = [] \<and>
   spawned (handlePty srv host_noagent sess_shell_agent) = [] \<and>
   spawned (handleNonPty srv host_noagent sess_cmd) \<noteq> [] \<and>
   spawned (handlePty srv host_noagent sess_shell) \<noteq> []"
  by (simp add: spawned_handleNonPty spawned_handlePty examples)

text \<open>
  C2, amended: when agent forwarding is requested and \<open>ssh.NewAgentListener()\<close>
  fails, \<open>handlePty\<close> and \<open>handleNonPty\<close> log the failure and return at once
  (lines 91-94 and 134-137): that log entry is their only effect, so no process is
  spawned and no exit status is reported.
\<close>

theorem agent_listener_failure_aborts_handler:
  "AgentRequested sess \<Longrightarrow> ssh_NewAgentListener h = Inl err \<Longrightarrow>
   handlePty s h sess = [Log Errorf ''Failed to start agent listener: %v'' [E err]] \<and>
   handleNonPty s h sess = [Log Errorf ''Failed to start agent listener: %v'' [E err]]"
  by (simp add: handlePty_def handleNonPty_def Let_def)

theorem agent_listener_failure_aborts_handler_witness:
  "AgentRequested sess_cmd_agent \<and>
   ssh_NewAgentListener host_noagent = Inl (Error ''listen unix: permission denied'') \<and>
   handlePty srv host_noagent sess_cmd_agent =
     [Log Errorf ''Failed to start agent listener: %v''
        [E (Error ''listen unix: permission denied'')]] \<and>
   handleNonPty srv host_noagent sess_cmd_agent =
     [Log Errorf ''Failed to start agent listener: %v''
        [E (Error ''listen unix: permission denied'')]]"
proof -
  have a: "AgentRequested sess_cmd_agent"
    and l: "ssh_NewAgentListener host_noagent = Inl (Error ''listen unix: permission denied'')"
    by (simp_all add: examples)
  show ?thesis
    using a l agent_listener_failure_aborts_handler [OF a l, of srv] by simp
qed

subsection \<open>Failure to start a one-shot command\<close>




subsection \<open>The copy into the standard-input pipe\<close>

text \<open>
  C4. The goroutine of lines 155-162 copies the session's inbound bytes into the
  standard-input pipe. When the copy ends without error it closes the pipe. When the
  copy ends with an error it logs the error and returns before \<open>stdinPipe.Close()\<close>:
  on a host where reading the session fails, the goroutine's only effect is the log entry,
  and the handler has no other call that closes the pipe when the copy ends.
\<close>

theorem stdinCopy_error_leaves_pipe_open:
  "io_Copy_stdin host_copyerr = Some (Error ''read: connection reset by peer'') \<and>
   stdinCopy host_copyerr =
     [Log Errorf ''Unable to read from session: %v''
        [E (Error ''read: connection reset by peer'')]] \<and>
   StdinPipeClose \<notin> set (stdinCopy host_copyerr) \<and>
   handleNonPty srv host_copyerr sess_cmd =
     [Go CopySessionToStdin (stdinCopy host_copyerr), CmdStart (cmd_ls ''/workspaces/app''),
      SessionSignals True, Go SignalLoop [], CmdWait, SessionExit 0,
      SessionSignals False, CloseSigs] \<and>
   io_Copy_stdin host_ok = None \<and> stdinCopy host_ok = [StdinPipeClose]"
  by (simp add: handleNonPty_def handleNonPty_run_def stdinCopy_def exec_Command_def Let_def
      cmd_ls_def examples)

end
